theory Spec2Isabelle
  imports Complex_Main "HOL-Library.Word"
begin

section \<open>The account API of sigma: handlers of \<open>api/account.api.go\<close>\<close>

text \<open>
  Each handler of \<open>AccountAPI\<close> is a straight line of calls to collaborators that live in
  other packages (the response envelope, the access gate, the service, the audit recorder,
  gin's context, the Excel builder). A handler is modelled as the function from the
  collaborators' answers to the list of calls it makes on them, in program order: the
  answer of a collaborator is a field of the environment, a call with an effect is an
  \<open>action\<close> of the trace.
\<close>

subsection \<open>Data\<close>

type_synonym rowid = nat
  \<comment> \<open>\<open>types.RowID\<close>\<close>

type_synonym error = string
  \<comment> \<open>a Go \<open>error\<close> value, by its message\<close>

type_synonym bytes = "8 word list"

text \<open>
  \<open>model.Account\<close>: the handlers read its \<open>ID\<close> only. \<open>Name\<close> stands for the columns that
  are carried along unread (Name, LegalName, ServerAddress, ... of the Excel sheet).
\<close>

record account =
  ID :: rowid
  Name :: string

definition zero_account :: account where
  "zero_account = \<lparr>ID = 0, Name = ''''\<rparr>"
  \<comment> \<open>\<open>var account model.Account\<close>\<close>

datatype resource = resource_AccountRead | resource_AccountWrite | resource_AccountExcel

datatype event =
    event_AccountView | event_AccountList | event_AccountCreate
  | event_AccountUpdate | event_AccountDelete | event_AccountExcel

datatype terms =
    You_dont_have_permission | Invalid_ID | Record_Not_Found
  | V_info | List_of_V | V_created_successfully | V_updated_successfully
  | V_deleted_successfully

definition thisAccount :: string where
  "thisAccount = ''account''"

definition thisAccounts :: string where
  "thisAccounts = ''accounts''"

definition StatusOK :: nat where "StatusOK = 200"
definition StatusForbidden :: nat where "StatusForbidden = 403"
definition StatusNotFound :: nat where "StatusNotFound = 404"
definition StatusNotAcceptable :: nat where "StatusNotAcceptable = 406"
definition StatusInternalServerError :: nat where "StatusInternalServerError = 500"

subsection \<open>The response envelope under construction\<close>

text \<open>
  \<open>response.New\<close> gives an envelope with nothing set; \<open>Status\<close>, \<open>Error\<close> and \<open>MessageT\<close>
  each set one part and return the envelope; \<open>JSON\<close> writes it. A part that no call set
  stays \<open>None\<close>: what the envelope sends for it is the response package's default.
\<close>

datatype errarg = ErrTerm terms | ErrVal error

record response =
  status :: "nat option"
  err :: "errarg option"
  message :: "(terms \<times> string list) option"

definition response_New :: response where
  "response_New = \<lparr>status = None, err = None, message = None\<rparr>"

definition Status :: "nat \<Rightarrow> response \<Rightarrow> response" where
  "Status code r = r\<lparr>status := Some code\<rparr>"

definition Error :: "errarg \<Rightarrow> response \<Rightarrow> response" where
  "Error e r = r\<lparr>err := Some e\<rparr>"

definition MessageT :: "terms \<Rightarrow> string list \<Rightarrow> response \<Rightarrow> response" where
  "MessageT t args r = r\<lparr>message := Some (t, args)\<rparr>"

record Result =
  Message :: string
  \<comment> \<open>\<open>response.Result\<close>, as the Excel handler fills it\<close>

subsection \<open>The request body and gin's \<open>ShouldBindJSON\<close>\<close>

text \<open>
  A body either fails to bind (malformed JSON, or a failed validation) or is an object in
  which each key is present or absent. \<open>ShouldBindJSON\<close> decodes with \<open>encoding/json\<close>
  into the struct it is given by pointer: a key present in the body overwrites the field,
  an absent key leaves the field as it was. The identifier of \<open>model.Account\<close> is taken to
  be bound to a JSON key, as every other column is.
\<close>

datatype json_body = Malformed error | Object "rowid option" "string option"

fun ShouldBindJSON :: "json_body \<Rightarrow> account \<Rightarrow> error + account" where
  "ShouldBindJSON (Malformed e) a = Inl e"
| "ShouldBindJSON (Object i n) a =
     Inr (a\<lparr>ID := (case i of None \<Rightarrow> ID a | Some v \<Rightarrow> v),
            Name := (case n of None \<Rightarrow> Name a | Some v \<Rightarrow> v)\<rparr>)"

record request =
  Param :: "string \<Rightarrow> string"
  Body :: json_body

subsection \<open>The Excel builder's calls\<close>

datatype builder_op =
    AddSheet string
  | Active string
  | SetPageLayout string string
  | SetPageMargins real
  | SetHeaderFooter
  | SetColWidth string string real
  | WriteHeader "string list"
  | SetSheetFields "string list"
  | WriteData "account list"
  | AddTable

definition account_workbook :: "account list \<Rightarrow> builder_op list" where
  "account_workbook accounts =
     [AddSheet ''Accounts'',
      AddSheet ''Summary'',
      Active ''Accounts'',
      SetPageLayout ''landscape'' ''A4'',
      SetPageMargins (2 / 10),
      SetHeaderFooter,
      SetColWidth ''B'' ''C'' (153 / 10),
      SetColWidth ''M'' ''M'' 20,
      Active ''Summary'',
      SetColWidth ''A'' ''D'' 20,
      Active ''Accounts'',
      WriteHeader [''ID'', ''Name'', ''Legal Name'', ''Server Address'', ''Expiration'', ''Plan'',
        ''Detail'', ''Phone'', ''Email'', ''Website'', ''Type'', ''Code'', ''Updated At''],
      SetSheetFields [''ID'', ''Name'', ''LegalName'', ''ServerAddress'', ''Expiration'', ''Plan'',
        ''Detail'', ''Phone'', ''Email'', ''Website'', ''Type'', ''Code'', ''UpdatedAt''],
      WriteData accounts,
      AddTable]"

subsection \<open>Collaborators and the trace of calls\<close>

text \<open>
  The collaborators' answers. \<open>'p\<close> is \<open>param.Param\<close>, whose declaration is in another
  package. \<open>CheckAccess\<close> answers \<open>True\<close> when access is denied, as the handlers use it.
\<close>

record 'p env =
  CheckAccess :: "request \<Rightarrow> resource \<Rightarrow> bool"
  StrToRowID :: "string \<Rightarrow> error + rowid"
  param_Get :: "request \<Rightarrow> string \<Rightarrow> 'p"
  Service_FindByID :: "rowid \<Rightarrow> error + account"
  Service_List :: "'p \<Rightarrow> error + account list"
  Service_Create :: "account \<Rightarrow> 'p \<Rightarrow> error + account"
  Service_Save :: "account \<Rightarrow> error + account"
  Service_Delete :: "rowid \<Rightarrow> error + account"
  Service_Excel :: "'p \<Rightarrow> error + account list"
  excel_Generate :: "string \<Rightarrow> builder_op list \<Rightarrow> error + bytes \<times> string"

datatype snapshot = Nil_snapshot | Snapshot account

datatype payload = Entity account | Page "account list"

text \<open>
  A call on the service carries its arguments and what the service returned; the other
  actions carry their arguments.
\<close>

datatype 'p action =
    Call_FindByID rowid "error + account"
  | Call_List 'p "error + account list"
  | Call_Create account 'p "error + account"
  | Call_Save account "error + account"
  | Call_Delete rowid "error + account"
  | Call_Excel 'p "error + account list"
  | Engine_Debug "error option"
  | Engine_Record event "snapshot list"
  | Generate string "builder_op list" "error + bytes \<times> string"
  | JSON response "payload list"
  | AbortWithStatusJSON nat error
  | Ctx_JSON nat Result
  | Ctx_Header string string
  | Ctx_Data nat string bytes

subsection \<open>The handlers\<close>

definition FindByID :: "'p env \<Rightarrow> request \<Rightarrow> 'p action list" where
  "FindByID p c =
     (let resp = response_New in
      if CheckAccess p c resource_AccountRead then
        [JSON (Error (ErrTerm You_dont_have_permission) (Status StatusForbidden resp)) []]
      else
        case StrToRowID p (Param c ''accountID'') of
          Inl e \<Rightarrow> [JSON (Error (ErrTerm Invalid_ID) resp) []]
        | Inr accountID \<Rightarrow>
            (case Service_FindByID p accountID of
               Inl e \<Rightarrow>
                 [Call_FindByID accountID (Inl e),
                  JSON (MessageT Record_Not_Found []
                          (Error (ErrVal e) (Status StatusNotFound resp))) []]
             | Inr account \<Rightarrow>
                 [Call_FindByID accountID (Inr account),
                  Engine_Record event_AccountView [],
                  JSON (MessageT V_info [thisAccount] (Status StatusOK resp))
                    [Entity account]]))"

definition List :: "'p env \<Rightarrow> request \<Rightarrow> 'p action list" where
  "List p c =
     (let resp = response_New in
      if CheckAccess p c resource_AccountWrite then
        [JSON (Error (ErrTerm You_dont_have_permission) (Status StatusForbidden resp)) []]
      else
        let params = param_Get p c thisAccounts in
        case Service_List p params of
          Inl e \<Rightarrow>
            [Call_List params (Inl e),
             Engine_Debug (Some e),
             JSON (Error (ErrVal e) resp) []]
        | Inr data \<Rightarrow>
            [Call_List params (Inr data),
             Engine_Debug None,
             Engine_Record event_AccountList [],
             JSON (MessageT List_of_V [thisAccounts] (Status StatusOK resp)) [Page data]])"

definition Create :: "'p env \<Rightarrow> request \<Rightarrow> 'p action list" where
  "Create p c =
     (let resp = response_New in
      if CheckAccess p c resource_AccountWrite then
        [JSON (Error (ErrTerm You_dont_have_permission) (Status StatusForbidden resp)) []]
      else
        case ShouldBindJSON (Body c) zero_account of
          Inl e \<Rightarrow> [AbortWithStatusJSON StatusNotAcceptable e]
        | Inr account \<Rightarrow>
            (let params = param_Get p c thisAccounts in
             case Service_Create p account params of
               Inl e \<Rightarrow>
                 [Call_Create account params (Inl e),
                  JSON (Error (ErrVal e) resp) []]
             | Inr createdAccount \<Rightarrow>
                 [Call_Create account params (Inr createdAccount),
                  Engine_Record event_AccountCreate [Nil_snapshot, Snapshot account],
                  JSON (MessageT V_created_successfully [thisAccount] (Status StatusOK resp))
                    [Entity createdAccount]]))"

definition Update :: "'p env \<Rightarrow> request \<Rightarrow> 'p action list" where
  "Update p c =
     (let resp = response_New in
      if CheckAccess p c resource_AccountWrite then
        [JSON (Error (ErrTerm You_dont_have_permission) (Status StatusForbidden resp)) []]
      else
        case StrToRowID p (Param c ''accountID'') of
          Inl e \<Rightarrow> [JSON (Error (ErrTerm Invalid_ID) resp) []]
        | Inr accountID \<Rightarrow>
            (case ShouldBindJSON (Body c) (zero_account\<lparr>ID := accountID\<rparr>) of
               Inl e \<Rightarrow> [AbortWithStatusJSON StatusNotAcceptable e]
             | Inr account \<Rightarrow>
                 (case Service_FindByID p (ID account) of
                    Inl e \<Rightarrow>
                      [Call_FindByID (ID account) (Inl e),
                       JSON (Error (ErrTerm Record_Not_Found) (Status StatusNotFound resp)) []]
                  | Inr accountBefore \<Rightarrow>
                      (case Service_Save p account of
                         Inl e \<Rightarrow>
                           [Call_FindByID (ID account) (Inr accountBefore),
                            Call_Save account (Inl e),
                            JSON (Error (ErrVal e) resp) []]
                       | Inr accountUpdated \<Rightarrow>
                           [Call_FindByID (ID account) (Inr accountBefore),
                            Call_Save account (Inr accountUpdated),
                            Engine_Record event_AccountUpdate
                              [Snapshot accountBefore, Snapshot account],
                            JSON (MessageT V_updated_successfully [thisAccount]
                                    (Status StatusOK resp))
                              [Entity accountUpdated]]))))"

definition Delete :: "'p env \<Rightarrow> request \<Rightarrow> 'p action list" where
  "Delete p c =
     (let resp = response_New in
      if CheckAccess p c resource_AccountWrite then
        [JSON (Error (ErrTerm You_dont_have_permission) (Status StatusForbidden resp)) []]
      else
        case StrToRowID p (Param c ''accountID'') of
          Inl e \<Rightarrow> [JSON (Error (ErrTerm Invalid_ID) resp) []]
        | Inr accountID \<Rightarrow>
            (case Service_Delete p accountID of
               Inl e \<Rightarrow>
                 [Call_Delete accountID (Inl e),
                  JSON (Error (ErrVal e) (Status StatusInternalServerError resp)) []]
             | Inr account \<Rightarrow>
                 [Call_Delete accountID (Inr account),
                  Engine_Record event_AccountDelete [Snapshot account],
                  JSON (MessageT V_deleted_successfully [thisAccount] (Status StatusOK resp))
                    []]))"

definition Excel :: "'p env \<Rightarrow> request \<Rightarrow> 'p action list" where
  "Excel p c =
     (let resp = response_New in
      if CheckAccess p c resource_AccountExcel then
        [JSON (Error (ErrTerm You_dont_have_permission) (Status StatusForbidden resp)) []]
      else
        let params = param_Get p c thisAccounts in
        case Service_Excel p params of
          Inl e \<Rightarrow>
            [Call_Excel params (Inl e),
             JSON (Error (ErrTerm Record_Not_Found) (Status StatusNotFound resp)) []]
        | Inr accounts \<Rightarrow>
            (let ex = account_workbook accounts in
             case excel_Generate p ''account'' ex of
               Inl e \<Rightarrow>
                 [Call_Excel params (Inr accounts),
                  Engine_Record event_AccountExcel [],
                  Generate ''account'' ex (Inl e),
                  Ctx_JSON StatusInternalServerError
                    \<lparr>Message = ''Error in generating Excel file''\<rparr>]
             | Inr (buffer, downloadName) \<Rightarrow>
                 [Call_Excel params (Inr accounts),
                  Engine_Record event_AccountExcel [],
                  Generate ''account'' ex (Inr (buffer, downloadName)),
                  Ctx_Header ''Content-Description'' ''File Transfer'',
                  Ctx_Header ''Content-Disposition'' (''attachment; filename='' @ downloadName),
                  Ctx_Data StatusOK ''application/octet-stream'' buffer]))"

subsection \<open>The six verbs\<close>

text \<open>
  \<open>handle v\<close> is the handler of the verb \<open>v\<close>: a property of all six handlers is stated
  once, for every \<open>v\<close>.
\<close>

datatype verb = verb_FindByID | verb_List | verb_Create | verb_Update | verb_Delete | verb_Excel

fun handle :: "verb \<Rightarrow> 'p env \<Rightarrow> request \<Rightarrow> 'p action list" where
  "handle verb_FindByID = FindByID"
| "handle verb_List = List"
| "handle verb_Create = Create"
| "handle verb_Update = Update"
| "handle verb_Delete = Delete"
| "handle verb_Excel = Excel"

subsection \<open>Reading a trace\<close>

fun is_service :: "'p action \<Rightarrow> bool" where
  "is_service (Call_FindByID _ _) = True"
| "is_service (Call_List _ _) = True"
| "is_service (Call_Create _ _ _) = True"
| "is_service (Call_Save _ _) = True"
| "is_service (Call_Delete _ _) = True"
| "is_service (Call_Excel _ _) = True"
| "is_service _ = False"

fun service_failed :: "'p action \<Rightarrow> bool" where
  "service_failed (Call_FindByID _ r) = isl r"
| "service_failed (Call_List _ r) = isl r"
| "service_failed (Call_Create _ _ r) = isl r"
| "service_failed (Call_Save _ r) = isl r"
| "service_failed (Call_Delete _ r) = isl r"
| "service_failed (Call_Excel _ r) = isl r"
| "service_failed _ = False"

fun is_record :: "'p action \<Rightarrow> bool" where
  "is_record (Engine_Record _ _) = True"
| "is_record _ = False"

fun is_response :: "'p action \<Rightarrow> bool" where
  "is_response (JSON _ _) = True"
| "is_response (AbortWithStatusJSON _ _) = True"
| "is_response (Ctx_JSON _ _) = True"
| "is_response (Ctx_Header _ _) = True"
| "is_response (Ctx_Data _ _ _) = True"
| "is_response _ = False"

text \<open>
  The responses of the error paths that precede or follow a service call: an envelope
  with its error part set, or gin's abort with the binding error.
\<close>

fun error_response :: "'p action \<Rightarrow> bool" where
  "error_response (JSON r _) = (err r \<noteq> None)"
| "error_response (AbortWithStatusJSON _ _) = True"
| "error_response _ = False"

text \<open>
  The service call that a verb's audit event describes, returned with success: the fetch
  for the view, list and export events, the mutation for the create, update and delete
  events.
\<close>

fun described_success :: "verb \<Rightarrow> 'p action \<Rightarrow> bool" where
  "described_success verb_FindByID (Call_FindByID _ (Inr _)) = True"
| "described_success verb_List (Call_List _ (Inr _)) = True"
| "described_success verb_Create (Call_Create _ _ (Inr _)) = True"
| "described_success verb_Update (Call_Save _ (Inr _)) = True"
| "described_success verb_Delete (Call_Delete _ (Inr _)) = True"
| "described_success verb_Excel (Call_Excel _ (Inr _)) = True"
| "described_success _ _ = False"

text \<open>The entities handed to the service's \<open>Save\<close>, in order.\<close>

fun saved :: "'p action list \<Rightarrow> account list" where
  "saved [] = []"
| "saved (Call_Save a r # t) = a # saved t"
| "saved (x # t) = saved t"

subsection \<open>Example collaborators and requests\<close>

definition stored :: "rowid \<Rightarrow> account" where
  "stored i = \<lparr>ID = i, Name = ''stored''\<rparr>"

definition env_ok :: "unit env" where
  "env_ok =
     \<lparr>CheckAccess = (\<lambda>c r. False),
      StrToRowID = (\<lambda>s. if s = ''42'' then Inr 42 else Inl ''invalid id''),
      param_Get = (\<lambda>c part. ()),
      Service_FindByID = (\<lambda>i. Inr (stored i)),
      Service_List = (\<lambda>q. Inr [stored 1, stored 2]),
      Service_Create = (\<lambda>a q. Inr (a\<lparr>ID := 5\<rparr>)),
      Service_Save = (\<lambda>a. Inr a),
      Service_Delete = (\<lambda>i. Inr (stored i)),
      Service_Excel = (\<lambda>q. Inr [stored 1, stored 2]),
      excel_Generate = (\<lambda>name ops. Inr ([80, 75], name @ ''.xlsx''))\<rparr>"

definition req_42 :: "json_body \<Rightarrow> request" where
  "req_42 b = \<lparr>Param = (\<lambda>k. if k = ''accountID'' then ''42'' else ''''), Body = b\<rparr>"

definition req_bad_id :: request where
  "req_bad_id = \<lparr>Param = (\<lambda>k. if k = ''accountID'' then ''x1'' else ''''),
                  Body = Object None (Some ''new'')\<rparr>"

definition env_denied :: "unit env" where
  "env_denied = env_ok\<lparr>CheckAccess := (\<lambda>c r. True)\<rparr>"

definition env_read_only :: "unit env" where
  "env_read_only = env_ok\<lparr>CheckAccess := (\<lambda>c r. r \<noteq> resource_AccountRead)\<rparr>"

definition env_failing :: "unit env" where
  "env_failing =
     env_ok\<lparr>Service_List := (\<lambda>q. Inl ''db down''),
            Service_Create := (\<lambda>a q. Inl ''db down''),
            Service_Save := (\<lambda>a. Inl ''db down''),
            Service_Delete := (\<lambda>i. Inl ''db down''),
            Service_Excel := (\<lambda>q. Inl ''db down'')\<rparr>"

definition env_no_workbook :: "unit env" where
  "env_no_workbook = env_ok\<lparr>excel_Generate := (\<lambda>name ops. Inl ''disk full'')\<rparr>"

lemmas example_defs =
  env_ok_def env_denied_def env_read_only_def env_failing_def env_no_workbook_def
  req_42_def req_bad_id_def stored_def zero_account_def

section \<open>Properties\<close>

lemmas http_status =
  StatusOK_def StatusForbidden_def StatusNotFound_def StatusNotAcceptable_def
  StatusInternalServerError_def

lemmas envelope_simps =
  response_New_def Status_def Error_def MessageT_def thisAccount_def thisAccounts_def

lemmas handler_defs =
  FindByID_def List_def Create_def Update_def Delete_def Excel_def

subsection \<open>Access denied\<close>

text \<open>
  C1. When \<open>CheckAccess\<close> reports denied for the capability a handler asks for, the
  handler's whole trace is one envelope with status 403 and the permission-denied term:
  no call on the service and no audit record. It holds for each of the six handlers.
\<close>

theorem denied_writes_403_only:
  "let denied = [JSON \<lparr>status = Some 403, err = Some (ErrTerm You_dont_have_permission),
                       message = None\<rparr> []];
       quiet = (\<lambda>t. t = denied \<and> \<not> list_ex is_service t \<and> \<not> list_ex is_record t)
   in (CheckAccess p c resource_AccountRead \<longrightarrow> quiet (FindByID p c)) \<and>
      (CheckAccess p c resource_AccountWrite \<longrightarrow>
         quiet (List p c) \<and> quiet (Create p c) \<and> quiet (Update p c) \<and> quiet (Delete p c)) \<and>
      (CheckAccess p c resource_AccountExcel \<longrightarrow> quiet (Excel p c))"
  by (simp add: handler_defs envelope_simps http_status)

theorem denied_writes_403_only_witness:
  "FindByID env_denied (req_42 (Object None None)) =
     [JSON \<lparr>status = Some 403, err = Some (ErrTerm You_dont_have_permission),
            message = None\<rparr> []] \<and>
   Delete env_denied (req_42 (Object None None)) = FindByID env_denied (req_42 (Object None None)) \<and>
   Excel env_denied (req_42 (Object None None)) = FindByID env_denied (req_42 (Object None None)) \<and>
   \<not> list_ex is_service (Update env_denied (req_42 (Object None None))) \<and>
   \<not> list_ex is_record (Create env_denied (req_42 (Object None None)))"
  using denied_writes_403_only [of env_denied "req_42 (Object None None)"]
  by (simp add: Let_def env_denied_def env_ok_def)

subsection \<open>Update: which identifier is saved\<close>

text \<open>
  C2. The handler stores the path identifier in the entity and then binds the body over
  it, so an identifier in the body replaces the one of the path: the entity handed to
  \<open>Save\<close> (and the one fetched as the before snapshot) carries the body's identifier when
  the body has one, and the path's only when it has none. With path identifier 42 and body
  identifier 7 the entity is saved under 7.
\<close>

theorem Update_saves_bound_identifier:
  assumes "\<not> CheckAccess p c resource_AccountWrite"
    and "StrToRowID p (Param c ''accountID'') = Inr i"
    and "Body c = Object j n"
    and "Service_FindByID p (case j of None \<Rightarrow> i | Some v \<Rightarrow> v) = Inr b"
  shows "map ID (saved (Update p c)) = [case j of None \<Rightarrow> i | Some v \<Rightarrow> v]"
  using assms
  by (cases j) (simp_all add: Update_def zero_account_def split: sum.splits)

theorem Update_path_42_body_7_saves_7:
  "map ID (saved (Update env_ok (req_42 (Object (Some 7) (Some ''new''))))) = [7] \<and>
   StrToRowID env_ok (Param (req_42 (Object (Some 7) (Some ''new''))) ''accountID'') = Inr 42"
proof -
  let ?c = "req_42 (Object (Some 7) (Some ''new''))"
  have a: "\<not> CheckAccess env_ok ?c resource_AccountWrite"
    by (simp add: env_ok_def)
  have i: "StrToRowID env_ok (Param ?c ''accountID'') = Inr 42"
    by (simp add: env_ok_def req_42_def)
  have b: "Body ?c = Object (Some 7) (Some ''new'')"
    by (simp add: req_42_def)
  have f: "Service_FindByID env_ok (case Some 7 of None \<Rightarrow> 42 | Some v \<Rightarrow> v) = Inr (stored 7)"
    by (simp add: env_ok_def)
  from Update_saves_bound_identifier [OF a i b f] i show ?thesis
    by simp
qed

subsection \<open>Audit records\<close>

text \<open>
  C3. For every verb and every request: an audit record is in the trace exactly when the
  service call its event describes is in the trace with a successful return; a record
  stands after that call, with no response written before it and a response written after
  it, and it is the only record; and a trace in which a service call failed, or that
  answers with an error envelope or with gin's abort (access denied, invalid identifier or
  body, not found, service error), has no record. The failed build of the export's
  workbook is none of these paths: it answers through \<open>c.JSON\<close> after the export event.
\<close>

theorem record_iff_described_call_succeeded:
  "(list_ex is_record (handle v p c) = list_ex (described_success v) (handle v p c)) \<and>
   (\<forall>pre a post. handle v p c = pre @ a # post \<and> is_record a \<longrightarrow>
      list_ex (described_success v) pre \<and> \<not> list_ex is_response pre \<and>
      list_ex is_response post \<and> \<not> list_ex is_record pre \<and> \<not> list_ex is_record post) \<and>
   (list_ex service_failed (handle v p c) \<or> list_ex error_response (handle v p c) \<longrightarrow>
      \<not> list_ex is_record (handle v p c))"
proof (intro conjI allI impI)
  show "list_ex is_record (handle v p c) = list_ex (described_success v) (handle v p c)"
    by (cases v) (auto simp: handler_defs Let_def split: sum.splits)
next
  fix pre a post
  assume h: "handle v p c = pre @ a # post \<and> is_record a"
  then show "list_ex (described_success v) pre" "\<not> list_ex is_response pre"
    "list_ex is_response post" "\<not> list_ex is_record pre" "\<not> list_ex is_record post"
    by (cases v;
        auto simp: handler_defs Let_def Cons_eq_append_conv split: sum.splits if_splits)+
next
  assume "list_ex service_failed (handle v p c) \<or> list_ex error_response (handle v p c)"
  then show "\<not> list_ex is_record (handle v p c)"
    by (cases v) (auto simp: handler_defs envelope_simps Let_def split: sum.splits if_splits)
qed

theorem record_iff_described_call_succeeded_witness:
  "handle verb_Update env_ok (req_42 (Object None (Some ''new''))) =
     [Call_FindByID 42 (Inr (stored 42)),
      Call_Save \<lparr>ID = 42, Name = ''new''\<rparr> (Inr \<lparr>ID = 42, Name = ''new''\<rparr>)] @
     Engine_Record event_AccountUpdate [Snapshot (stored 42), Snapshot \<lparr>ID = 42, Name = ''new''\<rparr>] #
     [JSON \<lparr>status = Some 200, err = None,
             message = Some (V_updated_successfully, [''account''])\<rparr>
        [Entity \<lparr>ID = 42, Name = ''new''\<rparr>]] \<and>
   list_ex (described_success verb_Update)
     [Call_FindByID 42 (Inr (stored 42)),
      Call_Save \<lparr>ID = 42, Name = ''new''\<rparr> (Inr \<lparr>ID = 42, Name = ''new''\<rparr>) :: unit action] \<and>
   list_ex service_failed (handle verb_Update env_failing (req_42 (Object None (Some ''new'')))) \<and>
   \<not> list_ex is_record (handle verb_Update env_failing (req_42 (Object None (Some ''new''))))"
proof -
  let ?c = "req_42 (Object None (Some ''new''))"
  let ?pre = "[Call_FindByID 42 (Inr (stored 42)),
      Call_Save \<lparr>ID = 42, Name = ''new''\<rparr> (Inr \<lparr>ID = 42, Name = ''new''\<rparr>) :: unit action]"
  let ?a = "Engine_Record event_AccountUpdate
      [Snapshot (stored 42), Snapshot \<lparr>ID = 42, Name = ''new''\<rparr>] :: unit action"
  let ?post = "[JSON \<lparr>status = Some 200, err = None,
             message = Some (V_updated_successfully, [''account''])\<rparr>
        [Entity \<lparr>ID = 42, Name = ''new''\<rparr>] :: unit action]"
  have t: "handle verb_Update env_ok ?c = ?pre @ ?a # ?post"
    by (simp add: Update_def envelope_simps http_status example_defs)
  have f: "list_ex service_failed (handle verb_Update env_failing ?c)"
    by (simp add: Update_def envelope_simps http_status example_defs)
  from record_iff_described_call_succeeded [of verb_Update env_ok ?c] t
  have "list_ex (described_success verb_Update) ?pre"
    by (metis is_record.simps(1))
  moreover from record_iff_described_call_succeeded [of verb_Update env_failing ?c] f
  have "\<not> list_ex is_record (handle verb_Update env_failing ?c)"
    by blast
  ultimately show ?thesis
    using t f by blast
qed

subsection \<open>Service errors and their status\<close>

text \<open>
  C4. A failed \<open>Service.Delete\<close> is answered with an envelope whose status is set to 500
  and whose error is the service's. A failed \<open>Service.List\<close>, \<open>Service.Create\<close> or
  \<open>Service.Save\<close> is answered with an envelope that carries the service's error and has no
  status set. No envelope that List, Create or Update writes, on any path, has a status of
  500 or more (the failed fetch of Update is answered with 404).
\<close>

theorem service_error_status:
  "(\<not> CheckAccess p c resource_AccountWrite \<and>
    StrToRowID p (Param c ''accountID'') = Inr i \<and> Service_Delete p i = Inl e \<longrightarrow>
      Delete p c =
        [Call_Delete i (Inl e),
         JSON \<lparr>status = Some 500, err = Some (ErrVal e), message = None\<rparr> []]) \<and>
   (\<not> CheckAccess p c resource_AccountWrite \<and>
    Service_List p (param_Get p c thisAccounts) = Inl e \<longrightarrow>
      List p c =
        [Call_List (param_Get p c thisAccounts) (Inl e),
         Engine_Debug (Some e),
         JSON \<lparr>status = None, err = Some (ErrVal e), message = None\<rparr> []]) \<and>
   (\<not> CheckAccess p c resource_AccountWrite \<and>
    ShouldBindJSON (Body c) zero_account = Inr a \<and>
    Service_Create p a (param_Get p c thisAccounts) = Inl e \<longrightarrow>
      Create p c =
        [Call_Create a (param_Get p c thisAccounts) (Inl e),
         JSON \<lparr>status = None, err = Some (ErrVal e), message = None\<rparr> []]) \<and>
   (\<not> CheckAccess p c resource_AccountWrite \<and>
    StrToRowID p (Param c ''accountID'') = Inr i \<and>
    ShouldBindJSON (Body c) (zero_account\<lparr>ID := i\<rparr>) = Inr a \<and>
    Service_FindByID p (ID a) = Inr b \<and> Service_Save p a = Inl e \<longrightarrow>
      Update p c =
        [Call_FindByID (ID a) (Inr b),
         Call_Save a (Inl e),
         JSON \<lparr>status = None, err = Some (ErrVal e), message = None\<rparr> []]) \<and>
   (\<forall>r d s. (JSON r d \<in> set (List p c) \<or> JSON r d \<in> set (Create p c) \<or>
              JSON r d \<in> set (Update p c)) \<and> status r = Some s \<longrightarrow> s < 500)"
  by (auto simp: handler_defs envelope_simps http_status Let_def split: sum.splits if_splits)

theorem service_error_status_witness:
  "Delete env_failing (req_42 (Object None (Some ''new''))) =
     [Call_Delete 42 (Inl ''db down''),
      JSON \<lparr>status = Some 500, err = Some (ErrVal ''db down''), message = None\<rparr> []] \<and>
   List env_failing (req_42 (Object None (Some ''new''))) =
     [Call_List () (Inl ''db down''),
      Engine_Debug (Some ''db down''),
      JSON \<lparr>status = None, err = Some (ErrVal ''db down''), message = None\<rparr> []] \<and>
   Create env_failing (req_42 (Object None (Some ''new''))) =
     [Call_Create \<lparr>ID = 0, Name = ''new''\<rparr> () (Inl ''db down''),
      JSON \<lparr>status = None, err = Some (ErrVal ''db down''), message = None\<rparr> []] \<and>
   Update env_failing (req_42 (Object None (Some ''new''))) =
     [Call_FindByID 42 (Inr \<lparr>ID = 42, Name = ''stored''\<rparr>),
      Call_Save \<lparr>ID = 42, Name = ''new''\<rparr> (Inl ''db down''),
      JSON \<lparr>status = None, err = Some (ErrVal ''db down''), message = None\<rparr> []]"
  using service_error_status [where p = env_failing and c = "req_42 (Object None (Some ''new''))"
      and i = 42 and e = "''db down''" and a = "\<lparr>ID = 0, Name = ''new''\<rparr>"]
    service_error_status [where p = env_failing and c = "req_42 (Object None (Some ''new''))"
      and i = 42 and e = "''db down''" and a = "\<lparr>ID = 42, Name = ''new''\<rparr>"
      and b = "\<lparr>ID = 42, Name = ''stored''\<rparr>"]
  by (simp add: example_defs thisAccounts_def)

subsection \<open>The capability each handler asks for\<close>

text \<open>
  C5. List is answered with the permission-denied envelope exactly when \<open>CheckAccess\<close>
  denies the write capability \<open>AccountWrite\<close>, whatever it says of the read capability;
  FindByID exactly when it denies the read capability \<open>AccountRead\<close>. A caller who holds
  the read capability alone passes the gate of FindByID and not that of List.
\<close>

theorem List_asks_write_FindByID_asks_read:
  "(List p c =
      [JSON \<lparr>status = Some 403, err = Some (ErrTerm You_dont_have_permission),
             message = None\<rparr> []])
     = CheckAccess p c resource_AccountWrite \<and>
   (FindByID p c =
      [JSON \<lparr>status = Some 403, err = Some (ErrTerm You_dont_have_permission),
             message = None\<rparr> []])
     = CheckAccess p c resource_AccountRead"
  by (auto simp: handler_defs envelope_simps http_status Let_def split: sum.splits)

theorem List_asks_write_FindByID_asks_read_witness:
  "List env_read_only (req_42 (Object None None)) =
     [JSON \<lparr>status = Some 403, err = Some (ErrTerm You_dont_have_permission),
            message = None\<rparr> []] \<and>
   FindByID env_read_only (req_42 (Object None None)) \<noteq>
     [JSON \<lparr>status = Some 403, err = Some (ErrTerm You_dont_have_permission),
            message = None\<rparr> []]"
  using List_asks_write_FindByID_asks_read [of env_read_only "req_42 (Object None None)"]
  by (simp add: env_read_only_def env_ok_def)

subsection \<open>Create\<close>

text \<open>
  C6. When access is granted, the body binds to an entity and \<open>Service.Create\<close>
  succeeds, the handler records the create event with no before snapshot (\<open>nil\<close>) and the
  submitted entity as the after snapshot, and then writes the 200 envelope whose payload is
  the entity the service returned.
\<close>

theorem Create_success:
  assumes "\<not> CheckAccess p c resource_AccountWrite"
    and "ShouldBindJSON (Body c) zero_account = Inr a"
    and "Service_Create p a (param_Get p c thisAccounts) = Inr created"
  shows "Create p c =
     [Call_Create a (param_Get p c thisAccounts) (Inr created),
      Engine_Record event_AccountCreate [Nil_snapshot, Snapshot a],
      JSON \<lparr>status = Some 200, err = None,
             message = Some (V_created_successfully, [''account''])\<rparr>
        [Entity created]]"
  using assms by (simp add: Create_def envelope_simps http_status)

theorem Create_success_witness:
  "Create env_ok (req_42 (Object None (Some ''new''))) =
     [Call_Create \<lparr>ID = 0, Name = ''new''\<rparr> () (Inr \<lparr>ID = 5, Name = ''new''\<rparr>),
      Engine_Record event_AccountCreate [Nil_snapshot, Snapshot \<lparr>ID = 0, Name = ''new''\<rparr>],
      JSON \<lparr>status = Some 200, err = None,
             message = Some (V_created_successfully, [''account''])\<rparr>
        [Entity \<lparr>ID = 5, Name = ''new''\<rparr>]]"
  using Create_success [where p = env_ok and c = "req_42 (Object None (Some ''new''))"
      and a = "\<lparr>ID = 0, Name = ''new''\<rparr>" and created = "\<lparr>ID = 5, Name = ''new''\<rparr>"]
  by (simp add: example_defs thisAccounts_def)

subsection \<open>Excel export\<close>

text \<open>
  C7. When access to the export is granted: a failed fetch is answered with the 404
  envelope; a failed build of the workbook is answered through \<open>c.JSON\<close> with status 500
  and the fixed message \<open>Error in generating Excel file\<close>, not through the envelope; and
  on success the handler sets the two download headers (the second is the attachment
  disposition with the generated file name), streams the buffer as
  \<open>application/octet-stream\<close> with status 200 and writes nothing after it.
\<close>

theorem Excel_outcomes:
  assumes "\<not> CheckAccess p c resource_AccountExcel"
  shows
  "(Service_Excel p (param_Get p c thisAccounts) = Inl e \<longrightarrow>
      Excel p c =
        [Call_Excel (param_Get p c thisAccounts) (Inl e),
         JSON \<lparr>status = Some 404, err = Some (ErrTerm Record_Not_Found), message = None\<rparr> []]) \<and>
   (Service_Excel p (param_Get p c thisAccounts) = Inr accounts \<and>
    excel_Generate p ''account'' (account_workbook accounts) = Inl e \<longrightarrow>
      Excel p c =
        [Call_Excel (param_Get p c thisAccounts) (Inr accounts),
         Engine_Record event_AccountExcel [],
         Generate ''account'' (account_workbook accounts) (Inl e),
         Ctx_JSON 500 \<lparr>Message = ''Error in generating Excel file''\<rparr>]) \<and>
   (Service_Excel p (param_Get p c thisAccounts) = Inr accounts \<and>
    excel_Generate p ''account'' (account_workbook accounts) = Inr (buffer, downloadName) \<longrightarrow>
      Excel p c =
        [Call_Excel (param_Get p c thisAccounts) (Inr accounts),
         Engine_Record event_AccountExcel [],
         Generate ''account'' (account_workbook accounts) (Inr (buffer, downloadName)),
         Ctx_Header ''Content-Description'' ''File Transfer'',
         Ctx_Header ''Content-Disposition'' (''attachment; filename='' @ downloadName),
         Ctx_Data 200 ''application/octet-stream'' buffer])"
  using assms by (simp add: Excel_def envelope_simps http_status)

theorem Excel_outcomes_witness:
  "Excel env_failing (req_42 (Object None None)) =
     [Call_Excel () (Inl ''db down''),
      JSON \<lparr>status = Some 404, err = Some (ErrTerm Record_Not_Found), message = None\<rparr> []] \<and>
   Excel env_no_workbook (req_42 (Object None None)) =
     [Call_Excel () (Inr [stored 1, stored 2]),
      Engine_Record event_AccountExcel [],
      Generate ''account'' (account_workbook [stored 1, stored 2]) (Inl ''disk full''),
      Ctx_JSON 500 \<lparr>Message = ''Error in generating Excel file''\<rparr>] \<and>
   Excel env_ok (req_42 (Object None None)) =
     [Call_Excel () (Inr [stored 1, stored 2]),
      Engine_Record event_AccountExcel [],
      Generate ''account'' (account_workbook [stored 1, stored 2])
        (Inr ([80, 75], ''account.xlsx'')),
      Ctx_Header ''Content-Description'' ''File Transfer'',
      Ctx_Header ''Content-Disposition'' ''attachment; filename=account.xlsx'',
      Ctx_Data 200 ''application/octet-stream'' [80, 75]]"
  using
    Excel_outcomes [where p = env_failing and c = "req_42 (Object None None)"
      and e = "''db down''"]
    Excel_outcomes [where p = env_no_workbook and c = "req_42 (Object None None)"
      and e = "''disk full''" and accounts = "[stored 1, stored 2]"]
    Excel_outcomes [where p = env_ok and c = "req_42 (Object None None)"
      and accounts = "[stored 1, stored 2]" and buffer = "[80, 75]"
      and downloadName = "''account.xlsx''"]
  by (simp add: env_ok_def env_failing_def env_no_workbook_def thisAccounts_def)

subsection \<open>Invalid input\<close>

text \<open>
  C8. When the body fails to bind in Create (after the access check), or in Update (after
  the access check and the parse of the path identifier), the handler's whole trace is
  gin's \<open>AbortWithStatusJSON\<close> with status 406 and the binding error itself: no envelope,
  no call on the service. A request whose body cannot bind never reaches the service in
  either handler, whatever the access check and the identifier parse answer.
\<close>

theorem bind_failure_aborts_406:
  "(\<not> CheckAccess p c resource_AccountWrite \<and>
    ShouldBindJSON (Body c) zero_account = Inl e \<longrightarrow>
      Create p c = [AbortWithStatusJSON 406 e]) \<and>
   (\<not> CheckAccess p c resource_AccountWrite \<and>
    StrToRowID p (Param c ''accountID'') = Inr i \<and>
    ShouldBindJSON (Body c) (zero_account\<lparr>ID := i\<rparr>) = Inl e \<longrightarrow>
      Update p c = [AbortWithStatusJSON 406 e]) \<and>
   (Body c = Malformed e \<longrightarrow>
      \<not> list_ex is_service (Create p c) \<and> \<not> list_ex is_service (Update p c))"
  by (auto simp: handler_defs envelope_simps http_status Let_def split: sum.splits if_splits)

theorem bind_failure_aborts_406_witness:
  "Create env_ok (req_42 (Malformed ''unexpected EOF'')) =
     [AbortWithStatusJSON 406 ''unexpected EOF''] \<and>
   Update env_ok (req_42 (Malformed ''unexpected EOF'')) =
     [AbortWithStatusJSON 406 ''unexpected EOF''] \<and>
   \<not> list_ex is_service (Update env_ok (req_42 (Malformed ''unexpected EOF'')))"
  using bind_failure_aborts_406 [where p = env_ok and c = "req_42 (Malformed ''unexpected EOF'')"
      and i = 42 and e = "''unexpected EOF''"]
  by (simp add: env_ok_def req_42_def)

text \<open>
  C9. When the path identifier fails to parse in FindByID, Update or Delete (after the
  access check), the handler's whole trace is one envelope that carries the \<open>Invalid_ID\<close>
  term and on which no status was set. The envelopes of the other error branches of these
  handlers have theirs set: 403 with the permission term, 404 with the not-found term or
  message, 500 with the error of a failed delete.
\<close>

theorem invalid_id_sets_no_status:
  "(StrToRowID p (Param c ''accountID'') = Inl e \<longrightarrow>
      (\<not> CheckAccess p c resource_AccountRead \<longrightarrow>
         FindByID p c =
           [JSON \<lparr>status = None, err = Some (ErrTerm Invalid_ID), message = None\<rparr> []]) \<and>
      (\<not> CheckAccess p c resource_AccountWrite \<longrightarrow>
         Update p c =
           [JSON \<lparr>status = None, err = Some (ErrTerm Invalid_ID), message = None\<rparr> []] \<and>
         Delete p c =
           [JSON \<lparr>status = None, err = Some (ErrTerm Invalid_ID), message = None\<rparr> []])) \<and>
   (\<forall>r d. JSON r d \<in> set (FindByID p c) \<or> JSON r d \<in> set (Update p c) \<or>
            JSON r d \<in> set (Delete p c) \<longrightarrow>
      (err r = Some (ErrTerm You_dont_have_permission) \<longrightarrow> status r = Some 403) \<and>
      (err r = Some (ErrTerm Record_Not_Found) \<or> message r = Some (Record_Not_Found, []) \<longrightarrow>
         status r = Some 404) \<and>
      (JSON r d \<in> set (Delete p c) \<and> (\<exists>x. err r = Some (ErrVal x)) \<longrightarrow>
         status r = Some 500))"
  by (auto simp: handler_defs envelope_simps http_status Let_def split: sum.splits if_splits)

theorem invalid_id_sets_no_status_witness:
  "FindByID env_ok req_bad_id =
     [JSON \<lparr>status = None, err = Some (ErrTerm Invalid_ID), message = None\<rparr> []] \<and>
   Update env_ok req_bad_id = FindByID env_ok req_bad_id \<and>
   Delete env_ok req_bad_id = FindByID env_ok req_bad_id \<and>
   StrToRowID env_ok (Param req_bad_id ''accountID'') = Inl ''invalid id''"
  using invalid_id_sets_no_status [where p = env_ok and c = req_bad_id and e = "''invalid id''"]
  by (simp add: env_ok_def req_bad_id_def)

subsection \<open>The export event and the workbook\<close>

text \<open>
  C10. In the Excel handler the workbook is generated only after the export event has
  been recorded; so when the fetch succeeds and the generation fails, the trace holds the
  \<open>AccountExcel\<close> record and then the 500 answer.
\<close>

theorem Excel_records_before_Generate:
  "(\<forall>pre name ops r post. Excel p c = pre @ Generate name ops r # post \<longrightarrow>
      Engine_Record event_AccountExcel [] \<in> set pre) \<and>
   (\<not> CheckAccess p c resource_AccountExcel \<and>
    Service_Excel p (param_Get p c thisAccounts) = Inr accounts \<and>
    excel_Generate p ''account'' (account_workbook accounts) = Inl e \<longrightarrow>
      Excel p c =
        [Call_Excel (param_Get p c thisAccounts) (Inr accounts),
         Engine_Record event_AccountExcel [],
         Generate ''account'' (account_workbook accounts) (Inl e),
         Ctx_JSON 500 \<lparr>Message = ''Error in generating Excel file''\<rparr>])"
  by (auto simp: Excel_def envelope_simps http_status Let_def Cons_eq_append_conv
      split: sum.splits if_splits)

theorem Excel_records_before_Generate_witness:
  "Excel env_no_workbook (req_42 (Object None None)) =
     [Call_Excel () (Inr [stored 1, stored 2]), Engine_Record event_AccountExcel []] @
     Generate ''account'' (account_workbook [stored 1, stored 2]) (Inl ''disk full'') #
     [Ctx_JSON 500 \<lparr>Message = ''Error in generating Excel file''\<rparr>] \<and>
   Engine_Record event_AccountExcel [] \<in>
     set [Call_Excel () (Inr [stored 1, stored 2]), Engine_Record event_AccountExcel [] :: unit action]"
  using Excel_records_before_Generate [where p = env_no_workbook and c = "req_42 (Object None None)"
      and e = "''disk full''" and accounts = "[stored 1, stored 2]"]
  by (simp add: env_ok_def env_no_workbook_def thisAccounts_def)

end
